theory Spec2Isabelle
  imports Main "HOL-Library.AList"
begin

section \<open>Data model\<close>

text \<open>
  The tables of \<^verbatim>\<open>models.py\<close>. A calendar date is its proleptic ordinal (the
  day count of \<^verbatim>\<open>date.toordinal\<close>, from 1 for 0001-01-01 to 3652059 for 9999-12-31), a
  point in time is a number of seconds since the epoch. Python integers are unbounded. The \<^verbatim>\<open>users\<close> table has exactly the six columns below: the class
  \<^verbatim>\<open>User\<close> maps no \<^verbatim>\<open>avatar_url\<close> column.
\<close>

type_synonym date = int

record user =
  u_id :: int
  u_email :: string
  hashed_password :: string
  is_active :: bool
  is_verified :: bool
  verification_code :: "string option"

record contact =
  c_id :: int
  first_name :: string
  last_name :: string
  c_email :: string
  phone_number :: string
  birthday :: date
  additional_info :: "string option"
  owner_id :: int

text \<open>
  The request bodies of \<^verbatim>\<open>schemas.py\<close>. \<^verbatim>\<open>ContactCreate\<close> and
  \<^verbatim>\<open>ContactUpdate\<close> are both \<^verbatim>\<open>ContactBase\<close>; its only optional field is
  \<^verbatim>\<open>additional_info\<close>, which is \<open>None\<close> here when the request did not set it and
  \<open>Some v\<close> when the request set it to \<open>v\<close> (which may itself be null).
\<close>

record contact_base =
  in_first_name :: string
  in_last_name :: string
  in_email :: string
  in_phone_number :: string
  in_birthday :: date
  in_additional_info :: "string option option"

record user_create =
  uc_email :: string
  uc_password :: string

record token_data =
  td_email :: "string option"

datatype error =
    HTTPException nat string
  | JWTError
  | ValidationError
  | IntegrityError
  | DataError
  | SMTPException
  | CloudinaryError
  | OverflowError
  | TypeError
  | ValueError

datatype orm_call = Query | Add | Delete | Commit | Refresh

record mail =
  mail_to :: string
  mail_subject :: string
  mail_body :: string

text \<open>
  The state a request runs against: the two tables in table order with the sequences
  that number their rows, the calls made so far on the ORM session, and the messages
  handed to the SMTP server.
\<close>

record world =
  users :: "user list"
  contacts :: "contact list"
  users_id_seq :: int
  contacts_id_seq :: int
  calls :: "orm_call list"
  outbox :: "mail list"

text \<open>
  What the outside answers during one request: the clock, the random generator, the
  bcrypt of passlib (the salt drawn for a hash made in this request, the digest of a
  password under a salt, and the verification of a password against a stored hash,
  which is \<open>None\<close> when passlib cannot read the stored string as a hash), Python's
  \<^verbatim>\<open>int\<close> on a string (\<open>None\<close> when it raises \<^verbatim>\<open>ValueError\<close>), the SMTP server and
  the image host.
\<close>

record env =
  utcnow :: int
  today :: date
  rand :: "nat \<Rightarrow> nat"
  bcrypt_salt :: string
  bcrypt_digest :: "string \<Rightarrow> string \<Rightarrow> string"
  pwd_verify :: "string \<Rightarrow> string \<Rightarrow> bool option"
  py_int :: "string \<Rightarrow> int option"
  smtp_ok :: bool
  cloudinary :: "string \<Rightarrow> string option"

section \<open>The ORM session\<close>

definition log :: "orm_call \<Rightarrow> world \<Rightarrow> world" where
  "log c w = w\<lparr>calls := calls w @ [c]\<rparr>"

definition query_first :: "('r \<Rightarrow> bool) \<Rightarrow> 'r list \<Rightarrow> world \<Rightarrow> 'r option \<times> world" where
  "query_first P rows w = (find P rows, log Query w)"

definition query_all :: "('r \<Rightarrow> bool) \<Rightarrow> 'r list \<Rightarrow> world \<Rightarrow> 'r list \<times> world" where
  "query_all P rows w = (filter P rows, log Query w)"

text \<open>\<^verbatim>\<open>.offset(skip).limit(limit)\<close>: the database rejects a negative row count.\<close>

definition offset_limit :: "int \<Rightarrow> int \<Rightarrow> 'r list \<Rightarrow> error + 'r list" where
  "offset_limit skip limit rows =
     (if skip < 0 \<or> limit < 0 then Inl DataError
      else Inr (take (nat limit) (drop (nat skip) rows)))"

section \<open>security.py\<close>

definition SECRET_KEY :: string where
  "SECRET_KEY = ''Bjgji6930''"

definition ALGORITHM :: string where
  "ALGORITHM = ''HS256''"

definition ACCESS_TOKEN_EXPIRE_MINUTES :: int where
  "ACCESS_TOKEN_EXPIRE_MINUTES = 30"

text \<open>
  The library \<^verbatim>\<open>jose.jwt\<close>, symbolically: a token is either a JWS that carries the
  algorithm of its header, the key its signature verifies under and the claims its
  payload decodes to (read with \<open>map_of\<close>), or a string that is no JWS at all. A claim
  is a JSON value; numbers with a fraction or an exponent are outside the model.
\<close>

datatype json =
    JNull
  | JBool bool
  | JInt int
  | JStr string
  | JArray "json list"
  | JObject "(string \<times> json) list"

datatype token = JWS string string "(string \<times> json) list" | Opaque string

definition jwt_encode :: "(string \<times> json) list \<Rightarrow> string \<Rightarrow> string \<Rightarrow> token" where
  "jwt_encode claims key algorithm = JWS algorithm key claims"

text \<open>
  The validation of the time claims converts the claim with \<^verbatim>\<open>int(...)\<close> under
  \<^verbatim>\<open>except ValueError: raise JWTClaimsError\<close>: a string that is no integer literal
  gives the \<^verbatim>\<open>JWTError\<close>, while null, an array or an object make \<^verbatim>\<open>int\<close> raise
  \<^verbatim>\<open>TypeError\<close>, which the library does not catch.
\<close>

definition int_claim :: "env \<Rightarrow> json \<Rightarrow> error + int" where
  "int_claim env v =
     (case v of
        JNull \<Rightarrow> Inl TypeError
      | JBool b \<Rightarrow> Inr (if b then 1 else 0)
      | JInt n \<Rightarrow> Inr n
      | JStr s \<Rightarrow> (case py_int env s of None \<Rightarrow> Inl JWTError | Some n \<Rightarrow> Inr n)
      | JArray xs \<Rightarrow> Inl TypeError
      | JObject kvs \<Rightarrow> Inl TypeError)"

definition validate_iat :: "env \<Rightarrow> (string \<times> json) list \<Rightarrow> error + unit" where
  "validate_iat env claims =
     (case map_of claims ''iat'' of
        None \<Rightarrow> Inr ()
      | Some v \<Rightarrow> (case int_claim env v of Inl e \<Rightarrow> Inl e | Inr iat \<Rightarrow> Inr ()))"

definition validate_nbf :: "env \<Rightarrow> (string \<times> json) list \<Rightarrow> error + unit" where
  "validate_nbf env claims =
     (case map_of claims ''nbf'' of
        None \<Rightarrow> Inr ()
      | Some v \<Rightarrow>
          (case int_claim env v of
             Inl e \<Rightarrow> Inl e
           | Inr nbf \<Rightarrow> if utcnow env < nbf then Inl JWTError else Inr ()))"

definition validate_exp :: "env \<Rightarrow> (string \<times> json) list \<Rightarrow> error + unit" where
  "validate_exp env claims =
     (case map_of claims ''exp'' of
        None \<Rightarrow> Inr ()
      | Some v \<Rightarrow>
          (case int_claim env v of
             Inl e \<Rightarrow> Inl e
           | Inr exp \<Rightarrow> if exp < utcnow env then Inl JWTError else Inr ()))"

text \<open>
  \<^verbatim>\<open>verify_token\<close> passes no audience and no access token to \<^verbatim>\<open>jwt.decode\<close>, so a
  token with an \<^verbatim>\<open>aud\<close> or an \<^verbatim>\<open>at_hash\<close> claim is rejected; \<^verbatim>\<open>sub\<close> and \<^verbatim>\<open>jti\<close>,
  when present, must be strings; the issuer is not checked.
\<close>

definition validate_aud :: "(string \<times> json) list \<Rightarrow> error + unit" where
  "validate_aud claims =
     (case map_of claims ''aud'' of None \<Rightarrow> Inr () | Some v \<Rightarrow> Inl JWTError)"

definition validate_sub :: "(string \<times> json) list \<Rightarrow> error + unit" where
  "validate_sub claims =
     (case map_of claims ''sub'' of
        None \<Rightarrow> Inr ()
      | Some (JStr s) \<Rightarrow> Inr ()
      | Some v \<Rightarrow> Inl JWTError)"

definition validate_jti :: "(string \<times> json) list \<Rightarrow> error + unit" where
  "validate_jti claims =
     (case map_of claims ''jti'' of
        None \<Rightarrow> Inr ()
      | Some (JStr s) \<Rightarrow> Inr ()
      | Some v \<Rightarrow> Inl JWTError)"

definition validate_at_hash :: "(string \<times> json) list \<Rightarrow> error + unit" where
  "validate_at_hash claims =
     (case map_of claims ''at_hash'' of None \<Rightarrow> Inr () | Some v \<Rightarrow> Inl JWTError)"

definition and_then :: "error + unit \<Rightarrow> error + 'a \<Rightarrow> error + 'a" where
  "and_then r k = (case r of Inl e \<Rightarrow> Inl e | Inr u \<Rightarrow> k)"

text \<open>The checks run in the order of the library; the first that raises ends them.\<close>

definition validate_claims :: "env \<Rightarrow> (string \<times> json) list \<Rightarrow> error + unit" where
  "validate_claims env claims =
     and_then (validate_iat env claims)
       (and_then (validate_nbf env claims)
         (and_then (validate_exp env claims)
           (and_then (validate_aud claims)
             (and_then (validate_sub claims)
               (and_then (validate_jti claims)
                 (validate_at_hash claims))))))"

definition jwt_decode ::
  "env \<Rightarrow> token \<Rightarrow> string \<Rightarrow> string list \<Rightarrow> error + (string \<times> json) list" where
  "jwt_decode env tok key algorithms =
     (case tok of
        Opaque s \<Rightarrow> Inl JWTError
      | JWS alg k claims \<Rightarrow>
          if alg \<notin> set algorithms then Inl JWTError
          else if k \<noteq> key then Inl JWTError
          else and_then (validate_claims env claims) (Inr claims))"

text \<open>
  passlib refuses a password longer than its size limit or with a NUL character, when
  hashing and when verifying, with a \<^verbatim>\<open>PasswordValueError\<close>, and a stored string it
  cannot read as a hash with an \<^verbatim>\<open>UnknownHashError\<close>; both are \<^verbatim>\<open>ValueError\<close>s. A
  bcrypt hash is the string \<^verbatim>\<open>$2b$12$\<close> followed by the salt and the digest.
\<close>

definition MAX_PASSWORD_SIZE :: nat where
  "MAX_PASSWORD_SIZE = 4096"

definition password_rejected :: "string \<Rightarrow> bool" where
  "password_rejected secret =
     (MAX_PASSWORD_SIZE < length secret \<or> CHR 0x00 \<in> set secret)"

definition bcrypt_hash :: "env \<Rightarrow> string \<Rightarrow> string" where
  "bcrypt_hash env secret =
     ''$2b$12$'' @ bcrypt_salt env @ bcrypt_digest env (bcrypt_salt env) secret"

definition get_password_hash :: "env \<Rightarrow> string \<Rightarrow> error + string" where
  "get_password_hash env password =
     (if password_rejected password then Inl ValueError
      else Inr (bcrypt_hash env password))"

definition verify_password :: "env \<Rightarrow> string \<Rightarrow> string \<Rightarrow> error + bool" where
  "verify_password env plain_password hashed =
     (if password_rejected plain_password then Inl ValueError
      else (case pwd_verify env plain_password hashed of
              None \<Rightarrow> Inl ValueError
            | Some ok \<Rightarrow> Inr ok))"

text \<open>
  \<^verbatim>\<open>expires_delta\<close> is a number of seconds; \<^verbatim>\<open>if expires_delta:\<close> is false for
  \<^verbatim>\<open>None\<close> and for the zero duration.
\<close>

definition create_access_token ::
  "env \<Rightarrow> (string \<times> json) list \<Rightarrow> int option \<Rightarrow> token" where
  "create_access_token env data expires_delta =
     (let expire = (case expires_delta of
                      None \<Rightarrow> utcnow env + 15 * 60
                    | Some d \<Rightarrow> if d \<noteq> 0 then utcnow env + d else utcnow env + 15 * 60);
          to_encode = AList.update ''exp'' (JInt expire) data
      in jwt_encode to_encode SECRET_KEY ALGORITHM)"

text \<open>
  Only a \<^verbatim>\<open>JWTError\<close> becomes the credentials exception; any other exception of the
  decoding passes through.
\<close>

definition verify_token :: "env \<Rightarrow> token \<Rightarrow> error \<Rightarrow> error + token_data" where
  "verify_token env tok credentials_exception =
     (case jwt_decode env tok SECRET_KEY [ALGORITHM] of
        Inl e \<Rightarrow> if e = JWTError then Inl credentials_exception else Inl e
      | Inr payload \<Rightarrow>
          (case map_of payload ''sub'' of
             None \<Rightarrow> Inl credentials_exception
           | Some JNull \<Rightarrow> Inl credentials_exception
           | Some (JStr email) \<Rightarrow> Inr \<lparr>td_email = Some email\<rparr>
           | Some v \<Rightarrow> Inl ValidationError))"

definition authenticate_user ::
  "env \<Rightarrow> world \<Rightarrow> string \<Rightarrow> string \<Rightarrow> (error + user option) \<times> world" where
  "authenticate_user env w email password =
     (case query_first (\<lambda>u. u_email u = email) (users w) w of
        (None, w1) \<Rightarrow> (Inr None, w1)
      | (Some user, w1) \<Rightarrow>
          (case verify_password env password (hashed_password user) of
             Inl e \<Rightarrow> (Inl e, w1)
           | Inr ok \<Rightarrow> if \<not> ok then (Inr None, w1) else (Inr (Some user), w1)))"

definition credentials_exception :: error where
  "credentials_exception = HTTPException 401 ''Could not validate credentials''"

definition get_current_user :: "env \<Rightarrow> world \<Rightarrow> token \<Rightarrow> (error + user) \<times> world" where
  "get_current_user env w tok =
     (case verify_token env tok credentials_exception of
        Inl e \<Rightarrow> (Inl e, w)
      | Inr tdata \<Rightarrow>
          (case query_first (\<lambda>u. Some (u_email u) = td_email tdata) (users w) w of
             (None, w1) \<Rightarrow> (Inl credentials_exception, w1)
           | (Some user, w1) \<Rightarrow> (Inr user, w1)))"

section \<open>email_verif.py and image_upload.py\<close>

definition send_verification_email ::
  "env \<Rightarrow> world \<Rightarrow> string \<Rightarrow> string \<Rightarrow> (error + unit) \<times> world" where
  "send_verification_email env w email code =
     (let msg = \<lparr>mail_to = email, mail_subject = ''Verification Code'',
                 mail_body = ''Your verification code is: '' @ code\<rparr>
      in if smtp_ok env then (Inr (), w\<lparr>outbox := outbox w @ [msg]\<rparr>)
         else (Inl SMTPException, w))"

definition upload_image :: "env \<Rightarrow> string \<Rightarrow> error + string" where
  "upload_image env image_file =
     (case cloudinary env image_file of
        None \<Rightarrow> Inl CloudinaryError
      | Some url \<Rightarrow> Inr url)"

section \<open>crud.py\<close>

definition ascii_uppercase :: string where
  "ascii_uppercase = ''ABCDEFGHIJKLMNOPQRSTUVWXYZ''"

definition digits :: string where
  "digits = ''0123456789''"

text \<open>
  \<^verbatim>\<open>random.choices(population, k=length)\<close>: \<open>k\<close> independent draws, each an index
  into the population.
\<close>

definition code_generation :: "env \<Rightarrow> nat \<Rightarrow> string" where
  "code_generation env len =
     (let population = ascii_uppercase @ digits
      in map (\<lambda>i. population ! (rand env i mod length population)) [0..<len])"

definition get_contacts :: "world \<Rightarrow> int \<Rightarrow> int \<Rightarrow> (error + contact list) \<times> world" where
  "get_contacts w skip limit =
     (case query_all (\<lambda>c. True) (contacts w) w of
        (rows, w1) \<Rightarrow> (offset_limit skip limit rows, w1))"

text \<open>
  An insert takes the next value of the table's sequence as key. The column
  \<^verbatim>\<open>contacts.email\<close> is unique: the commit of a second row with the same email
  raises \<^verbatim>\<open>IntegrityError\<close> and stores nothing.
\<close>

definition crud_create_contact ::
  "world \<Rightarrow> contact_base \<Rightarrow> int \<Rightarrow> (error + contact) \<times> world" where
  "crud_create_contact w contact user_id =
     (let new_contact =
            \<lparr>c_id = contacts_id_seq w + 1,
             first_name = in_first_name contact,
             last_name = in_last_name contact,
             c_email = in_email contact,
             phone_number = in_phone_number contact,
             birthday = in_birthday contact,
             additional_info = (case in_additional_info contact of None \<Rightarrow> None | Some v \<Rightarrow> v),
             owner_id = user_id\<rparr>;
          w1 = log Add w;
          w2 = log Commit (w1\<lparr>contacts_id_seq := contacts_id_seq w1 + 1\<rparr>)
      in if c_email new_contact \<in> c_email ` set (contacts w2) then (Inl IntegrityError, w2)
         else (Inr new_contact, log Refresh (w2\<lparr>contacts := contacts w2 @ [new_contact]\<rparr>)))"

definition get_user_contacts ::
  "world \<Rightarrow> int \<Rightarrow> int \<Rightarrow> int \<Rightarrow> (error + contact list) \<times> world" where
  "get_user_contacts w user_id skip limit =
     (case query_all (\<lambda>c. owner_id c = user_id) (contacts w) w of
        (rows, w1) \<Rightarrow> (offset_limit skip limit rows, w1))"

definition get_contact :: "world \<Rightarrow> int \<Rightarrow> int \<Rightarrow> contact option \<times> world" where
  "get_contact w contact_id user_id =
     query_first (\<lambda>c. c_id c = contact_id \<and> owner_id c = user_id) (contacts w) w"

text \<open>
  \<^verbatim>\<open>contact.dict(exclude_unset=True)\<close> holds the five required fields and, only when
  the request set it, \<^verbatim>\<open>additional_info\<close>; the loop assigns each to the row.
\<close>

definition setattrs :: "contact_base \<Rightarrow> contact \<Rightarrow> contact" where
  "setattrs contact row =
     (let row1 = row\<lparr>first_name := in_first_name contact,
                     last_name := in_last_name contact,
                     c_email := in_email contact,
                     phone_number := in_phone_number contact,
                     birthday := in_birthday contact\<rparr>
      in case in_additional_info contact of
           None \<Rightarrow> row1
         | Some v \<Rightarrow> row1\<lparr>additional_info := v\<rparr>)"

text \<open>
  The commit writes the changed columns of the row with the key of \<^verbatim>\<open>db_contact\<close>;
  a changed email that another row already has violates the unique constraint.
\<close>

definition crud_update_contact ::
  "world \<Rightarrow> int \<Rightarrow> contact_base \<Rightarrow> int \<Rightarrow> (error + contact option) \<times> world" where
  "crud_update_contact w contact_id contact user_id =
     (case get_contact w contact_id user_id of
        (None, w1) \<Rightarrow> (Inr None, w1)
      | (Some db_contact, w1) \<Rightarrow>
          if in_email contact \<noteq> c_email db_contact
             \<and> in_email contact \<in> c_email ` set (contacts w1)
          then (Inl IntegrityError, log Commit w1)
          else
            (let w2 = log Commit
                   (w1\<lparr>contacts :=
                         map (\<lambda>r. if c_id r = c_id db_contact then setattrs contact r else r)
                           (contacts w1)\<rparr>)
             in (Inr (Some (setattrs contact db_contact)), log Refresh w2)))"

definition crud_delete_contact :: "world \<Rightarrow> int \<Rightarrow> int \<Rightarrow> contact option \<times> world" where
  "crud_delete_contact w contact_id user_id =
     (case get_contact w contact_id user_id of
        (None, w1) \<Rightarrow> (None, w1)
      | (Some db_contact, w1) \<Rightarrow>
          (let w2 = log Delete w1;
               w3 = log Commit
                      (w2\<lparr>contacts := filter (\<lambda>r. c_id r \<noteq> c_id db_contact) (contacts w2)\<rparr>)
           in (Some db_contact, w3)))"

definition get_user_by_email :: "world \<Rightarrow> string \<Rightarrow> user option \<times> world" where
  "get_user_by_email w email = query_first (\<lambda>u. u_email u = email) (users w) w"

text \<open>
  The password is hashed first, so a password the hasher refuses ends the call before
  anything is added. Both \<^verbatim>\<open>users.email\<close> and \<^verbatim>\<open>users.verification_code\<close> are
  unique columns, so the commit of the new row raises \<^verbatim>\<open>IntegrityError\<close> when either
  value is already stored. The verification mail is sent after the commit.
\<close>

definition crud_create_user :: "env \<Rightarrow> world \<Rightarrow> user_create \<Rightarrow> (error + user) \<times> world" where
  "crud_create_user env w user =
     (case get_password_hash env (uc_password user) of
        Inl e \<Rightarrow> (Inl e, w)
      | Inr fake_hashed_password \<Rightarrow>
          (let code = code_generation env 6;
               db_user = \<lparr>u_id = users_id_seq w + 1,
                          u_email = uc_email user,
                          hashed_password = fake_hashed_password,
                          is_active = True,
                          is_verified = False,
                          verification_code = Some code\<rparr>;
               w1 = log Add w;
               w2 = log Commit (w1\<lparr>users_id_seq := users_id_seq w1 + 1\<rparr>)
           in if u_email db_user \<in> u_email ` set (users w2)
                 \<or> Some code \<in> verification_code ` set (users w2)
              then (Inl IntegrityError, w2)
              else
                (let w3 = log Refresh (w2\<lparr>users := users w2 @ [db_user]\<rparr>)
                 in case send_verification_email env w3 (uc_email user) code of
                      (Inl e, w4) \<Rightarrow> (Inl e, w4)
                    | (Inr u, w4) \<Rightarrow> (Inr db_user, w4))))"

text \<open>
  \<^verbatim>\<open>timedelta(days=days)\<close> raises \<^verbatim>\<open>OverflowError\<close> for more than 999999999 days
  either way, and adding a duration to a date raises it when the result is no date
  from 0001-01-01 to 9999-12-31.
\<close>

definition MAXORDINAL :: int where
  "MAXORDINAL = 3652059"

definition timedelta_days :: "int \<Rightarrow> error + int" where
  "timedelta_days days =
     (if days < - 999999999 \<or> 999999999 < days then Inl OverflowError else Inr days)"

definition date_add :: "date \<Rightarrow> int \<Rightarrow> error + date" where
  "date_add d delta =
     (if 0 < d + delta \<and> d + delta \<le> MAXORDINAL then Inr (d + delta) else Inl OverflowError)"

definition crud_get_upcoming_birthdays ::
  "env \<Rightarrow> world \<Rightarrow> int \<Rightarrow> int \<Rightarrow> (error + contact list) \<times> world" where
  "crud_get_upcoming_birthdays env w user_id days =
     (case timedelta_days days of
        Inl e \<Rightarrow> (Inl e, w)
      | Inr delta \<Rightarrow>
          (case date_add (today env) delta of
             Inl e \<Rightarrow> (Inl e, w)
           | Inr end_date \<Rightarrow>
               (case query_all
                       (\<lambda>c. owner_id c = user_id \<and> today env \<le> birthday c
                              \<and> birthday c \<le> end_date)
                       (contacts w) w of
                  (rows, w1) \<Rightarrow> (Inr rows, w1))))"

text \<open>
  The assignment \<^verbatim>\<open>user.avatar_url = avatar_url\<close> sets an attribute of the loaded
  object that no column of \<^verbatim>\<open>users\<close> stores, so the commit has nothing to write.
  The function returns that object: the row together with the attribute.
\<close>

definition update_user_avatar ::
  "env \<Rightarrow> world \<Rightarrow> int \<Rightarrow> string \<Rightarrow> (error + (user \<times> string) option) \<times> world" where
  "update_user_avatar env w user_id image_file =
     (case query_first (\<lambda>u. u_id u = user_id) (users w) w of
        (None, w1) \<Rightarrow> (Inr None, w1)
      | (Some user, w1) \<Rightarrow>
          (case upload_image env image_file of
             Inl e \<Rightarrow> (Inl e, w1)
           | Inr avatar_url \<Rightarrow> (Inr (Some (user, avatar_url)), log Refresh (log Commit w1))))"

section \<open>main.py\<close>

text \<open>
  Each endpoint is the Python function under its route decorator: it returns the
  function's value or the exception it raises, and the state it leaves. A parameter
  \<^verbatim>\<open>Depends(get_current_user)\<close> is resolved from the bearer token before the body
  runs.
\<close>

record token_response =
  access_token :: token
  token_type :: string

definition update_avatar ::
  "env \<Rightarrow> world \<Rightarrow> token \<Rightarrow> int \<Rightarrow> string \<Rightarrow> (error + (user \<times> string) option) \<times> world" where
  "update_avatar env w tok user_id file =
     (case get_current_user env w tok of
        (Inl e, w1) \<Rightarrow> (Inl e, w1)
      | (Inr current_user, w1) \<Rightarrow>
          if user_id \<noteq> u_id current_user
          then (Inl (HTTPException 403 ''Not authorized to update this user's avatar''), w1)
          else update_user_avatar env w1 user_id file)"

definition verify_email ::
  "world \<Rightarrow> string \<Rightarrow> (error + (string \<times> string) list) \<times> world" where
  "verify_email w code =
     (case query_first (\<lambda>u. verification_code u = Some code) (users w) w of
        (None, w1) \<Rightarrow> (Inl (HTTPException 404 ''User not found''), w1)
      | (Some user, w1) \<Rightarrow>
          (let w2 = log Commit
                 (w1\<lparr>users :=
                       map (\<lambda>r. if u_id r = u_id user
                                then r\<lparr>is_verified := True, verification_code := None\<rparr>
                                else r)
                         (users w1)\<rparr>)
           in (Inr [(''message'', ''Email successfully verified'')], w2)))"

definition create_user :: "env \<Rightarrow> world \<Rightarrow> user_create \<Rightarrow> (error + user) \<times> world" where
  "create_user env w user =
     (case get_user_by_email w (uc_email user) of
        (Some db_user, w1) \<Rightarrow> (Inl (HTTPException 409 ''Email already registered''), w1)
      | (None, w1) \<Rightarrow> crud_create_user env w1 user)"

definition login_for_access_token ::
  "env \<Rightarrow> world \<Rightarrow> string \<Rightarrow> string \<Rightarrow> (error + token_response) \<times> world" where
  "login_for_access_token env w username password =
     (case authenticate_user env w username password of
        (Inl e, w1) \<Rightarrow> (Inl e, w1)
      | (Inr None, w1) \<Rightarrow> (Inl (HTTPException 401 ''Incorrect username or password''), w1)
      | (Inr (Some user), w1) \<Rightarrow>
          (let access_token_expires = ACCESS_TOKEN_EXPIRE_MINUTES * 60;
               tok = create_access_token env [(''sub'', JStr (u_email user))]
                       (Some access_token_expires)
           in (Inr \<lparr>access_token = tok, token_type = ''bearer''\<rparr>, w1)))"

definition create_contact ::
  "env \<Rightarrow> world \<Rightarrow> token \<Rightarrow> contact_base \<Rightarrow> (error + contact) \<times> world" where
  "create_contact env w tok contact =
     (case get_current_user env w tok of
        (Inl e, w1) \<Rightarrow> (Inl e, w1)
      | (Inr current_user, w1) \<Rightarrow> crud_create_contact w1 contact (u_id current_user))"

definition read_contacts ::
  "env \<Rightarrow> world \<Rightarrow> token \<Rightarrow> int \<Rightarrow> int \<Rightarrow> (error + contact list) \<times> world" where
  "read_contacts env w tok skip limit =
     (case get_current_user env w tok of
        (Inl e, w1) \<Rightarrow> (Inl e, w1)
      | (Inr current_user, w1) \<Rightarrow> get_user_contacts w1 (u_id current_user) skip limit)"

definition read_contact ::
  "env \<Rightarrow> world \<Rightarrow> token \<Rightarrow> int \<Rightarrow> (error + contact) \<times> world" where
  "read_contact env w tok contact_id =
     (case get_current_user env w tok of
        (Inl e, w1) \<Rightarrow> (Inl e, w1)
      | (Inr current_user, w1) \<Rightarrow>
          (case get_contact w1 contact_id (u_id current_user) of
             (None, w2) \<Rightarrow> (Inl (HTTPException 404 ''Contact not found''), w2)
           | (Some db_contact, w2) \<Rightarrow> (Inr db_contact, w2)))"

definition update_contact ::
  "env \<Rightarrow> world \<Rightarrow> token \<Rightarrow> int \<Rightarrow> contact_base \<Rightarrow> (error + contact option) \<times> world" where
  "update_contact env w tok contact_id contact =
     (case get_current_user env w tok of
        (Inl e, w1) \<Rightarrow> (Inl e, w1)
      | (Inr current_user, w1) \<Rightarrow>
          crud_update_contact w1 contact_id contact (u_id current_user))"

definition delete_contact ::
  "env \<Rightarrow> world \<Rightarrow> token \<Rightarrow> int \<Rightarrow> (error + contact option) \<times> world" where
  "delete_contact env w tok contact_id =
     (case get_current_user env w tok of
        (Inl e, w1) \<Rightarrow> (Inl e, w1)
      | (Inr current_user, w1) \<Rightarrow>
          (case crud_delete_contact w1 contact_id (u_id current_user) of
             (r, w2) \<Rightarrow> (Inr r, w2)))"

definition get_upcoming_birthdays ::
  "env \<Rightarrow> world \<Rightarrow> token \<Rightarrow> (error + contact list) \<times> world" where
  "get_upcoming_birthdays env w tok =
     (case get_current_user env w tok of
        (Inl e, w1) \<Rightarrow> (Inl e, w1)
      | (Inr current_user, w1) \<Rightarrow>
          crud_get_upcoming_birthdays env w1 (u_id current_user) 7)"

section \<open>Routing and database constraints\<close>

text \<open>The ten routes of the application, each with the parameters of its endpoint.\<close>

datatype request =
    PostAvatar token int string
  | GetVerify string
  | PostUsers user_create
  | PostToken string string
  | PostContacts token contact_base
  | GetContacts token int int
  | GetContact token int
  | PutContact token int contact_base
  | DeleteContact token int
  | GetUpcomingBirthdays token

text \<open>The state after the endpoint of the route has handled the request.\<close>

fun handle :: "env \<Rightarrow> world \<Rightarrow> request \<Rightarrow> world" where
  "handle env w (PostAvatar tok user_id file) = snd (update_avatar env w tok user_id file)"
| "handle env w (GetVerify code) = snd (verify_email w code)"
| "handle env w (PostUsers user) = snd (create_user env w user)"
| "handle env w (PostToken username password) =
     snd (login_for_access_token env w username password)"
| "handle env w (PostContacts tok contact) = snd (create_contact env w tok contact)"
| "handle env w (GetContacts tok skip limit) = snd (read_contacts env w tok skip limit)"
| "handle env w (GetContact tok contact_id) = snd (read_contact env w tok contact_id)"
| "handle env w (PutContact tok contact_id contact) =
     snd (update_contact env w tok contact_id contact)"
| "handle env w (DeleteContact tok contact_id) = snd (delete_contact env w tok contact_id)"
| "handle env w (GetUpcomingBirthdays tok) = snd (get_upcoming_birthdays env w tok)"

text \<open>The ORM calls a request added to the session's record.\<close>

definition issued :: "env \<Rightarrow> world \<Rightarrow> request \<Rightarrow> orm_call list" where
  "issued env w req = drop (length (calls w)) (calls (handle env w req))"


text \<open>
  The sequences of ORM calls one request can make: nothing or one query when the
  bearer token is rejected, otherwise at most two queries, then at most one add or
  delete, one commit and one refresh.
\<close>

definition few_calls :: "orm_call list list" where
  "few_calls =
     [[], [Query], [Query, Query], [Query, Commit], [Query, Add, Commit],
      [Query, Add, Commit, Refresh], [Query, Query, Commit],
      [Query, Query, Commit, Refresh], [Query, Query, Delete, Commit]]"

section \<open>Sample data\<close>

definition salt0 :: string where
  "salt0 = ''abcdefghijklmnopqrstuv''"

definition toy_digest :: "string \<Rightarrow> string \<Rightarrow> string" where
  "toy_digest salt p = rev p @ take 2 salt"

definition toy_verify :: "string \<Rightarrow> string \<Rightarrow> bool option" where
  "toy_verify p h =
     (if take 7 h = ''$2b$12$'' then Some (drop 29 h = toy_digest (take 22 (drop 7 h)) p)
      else None)"

definition env0 :: env where
  "env0 = \<lparr>utcnow = 1000, today = 738000, rand = (\<lambda>i. 7 * i + 3),
           bcrypt_salt = salt0, bcrypt_digest = toy_digest, pwd_verify = toy_verify,
           py_int = (\<lambda>s. None),
           smtp_ok = True, cloudinary = (\<lambda>f. Some (''https://img/'' @ f))\<rparr>"

definition alice :: user where
  "alice = \<lparr>u_id = 1, u_email = ''a@x.org'', hashed_password = ''$2b$12$'' @ salt0 @ toy_digest salt0 ''pw1'',
            is_active = True, is_verified = False, verification_code = Some ''DDDDDD''\<rparr>"

definition bob :: user where
  "bob = \<lparr>u_id = 2, u_email = ''b@x.org'', hashed_password = ''$2b$12$'' @ salt0 @ toy_digest salt0 ''pw2'',
          is_active = True, is_verified = True, verification_code = None\<rparr>"

definition ann :: contact where
  "ann = \<lparr>c_id = 1, first_name = ''Ann'', last_name = ''Lee'', c_email = ''ann@x.org'',
          phone_number = ''101'', birthday = 738003, additional_info = None, owner_id = 1\<rparr>"

definition ben :: contact where
  "ben = \<lparr>c_id = 2, first_name = ''Ben'', last_name = ''Ray'', c_email = ''ben@x.org'',
          phone_number = ''102'', birthday = 738020, additional_info = None, owner_id = 1\<rparr>"

definition cat :: contact where
  "cat = \<lparr>c_id = 3, first_name = ''Cat'', last_name = ''Fox'', c_email = ''cat@x.org'',
          phone_number = ''103'', birthday = 738001, additional_info = Some ''vet'',
          owner_id = 2\<rparr>"

definition w0 :: world where
  "w0 = \<lparr>users = [alice, bob], contacts = [ann, ben, cat], users_id_seq = 2,
         contacts_id_seq = 3, calls = [], outbox = []\<rparr>"

definition tok_alice :: token where
  "tok_alice = JWS ''HS256'' ''Bjgji6930'' [(''sub'', JStr ''a@x.org''), (''exp'', JInt 2800)]"

definition new_ann :: contact_base where
  "new_ann = \<lparr>in_first_name = ''Anna'', in_last_name = ''Lee'', in_email = ''ann@x.org'',
              in_phone_number = ''111'', in_birthday = 738004, in_additional_info = None\<rparr>"

definition carol_request :: user_create where
  "carol_request = \<lparr>uc_email = ''c@x.org'', uc_password = ''pw3''\<rparr>"

definition nul_password :: string where
  "nul_password = [CHR ''p'', CHR 0x00, CHR ''w'']"



section \<open>Auxiliary facts\<close>

lemma log_fields:
  "users (log c w) = users w"
  "contacts (log c w) = contacts w"
  "users_id_seq (log c w) = users_id_seq w"
  "contacts_id_seq (log c w) = contacts_id_seq w"
  "outbox (log c w) = outbox w"
  "calls (log c w) = calls w @ [c]"
  by (simp_all add: log_def)

lemma get_current_user_frame:
  assumes "get_current_user env w tok = (r, w1)"
  shows "users w1 = users w \<and> contacts w1 = contacts w \<and> users_id_seq w1 = users_id_seq w
    \<and> contacts_id_seq w1 = contacts_id_seq w \<and> outbox w1 = outbox w"
  using assms
  by (auto simp: get_current_user_def query_first_def log_fields
      split: sum.splits option.splits)

lemma filter_map_unchanged:
  assumes "\<And>x. x \<in> set xs \<Longrightarrow> P (g x) = P x"
    and "\<And>x. x \<in> set xs \<Longrightarrow> P x \<Longrightarrow> g x = x"
  shows "filter P (map g xs) = filter P xs"
  using assms by (induction xs) auto

lemma distinct_key_eq:
  assumes "distinct (map f xs)" and "x \<in> set xs" and "y \<in> set xs" and "f x = f y"
  shows "x = y"
  using assms by (meson distinct_map inj_onD)

section \<open>Upcoming birthdays\<close>

lemma crud_get_upcoming_birthdays_in_range:
  assumes "- 999999999 \<le> days" and "days \<le> 999999999"
    and "0 < today env + days" and "today env + days \<le> MAXORDINAL"
  shows "crud_get_upcoming_birthdays env w uid days =
           (Inr (filter (\<lambda>c. owner_id c = uid \<and> today env \<le> birthday c
                              \<and> birthday c \<le> today env + days) (contacts w)),
            log Query w)"
  using assms
  by (simp add: crud_get_upcoming_birthdays_def timedelta_days_def date_add_def query_all_def)

lemma crud_get_upcoming_birthdays_overflow:
  assumes "days < - 999999999 \<or> 999999999 < days
           \<or> today env + days \<le> 0 \<or> MAXORDINAL < today env + days"
  shows "crud_get_upcoming_birthdays env w uid days = (Inl OverflowError, w)"
  using assms
  by (auto simp: crud_get_upcoming_birthdays_def timedelta_days_def date_add_def)

text \<open>
  Claim C1. On a day that is a date at least a week before 9999-12-31, for the user a
  bearer token authenticates, the endpoint \<^verbatim>\<open>GET /contacts/upcoming_birthdays/\<close>
  returns exactly the stored contacts that user owns whose \<^verbatim>\<open>birthday\<close> lies between
  today and today plus seven days, both included, in table order.
  \<^verbatim>\<open>crud.get_upcoming_birthdays\<close> does so for any user id and any number of days for
  which today plus the days is a date; for any other number of days the date
  arithmetic raises \<^verbatim>\<open>OverflowError\<close> before the query.
\<close>

theorem upcoming_birthdays_range:
  assumes "fst (get_current_user env w tok) = Inr u"
    and "0 < today env" and "today env + 7 \<le> MAXORDINAL"
  shows "fst (get_upcoming_birthdays env w tok) =
           Inr (filter (\<lambda>c. owner_id c = u_id u \<and> today env \<le> birthday c
                              \<and> birthday c \<le> today env + 7) (contacts w))
       \<and> (\<forall>uid days. - 999999999 \<le> days \<and> days \<le> 999999999
              \<and> 0 < today env + days \<and> today env + days \<le> MAXORDINAL \<longrightarrow>
            fst (crud_get_upcoming_birthdays env w uid days) =
              Inr (filter (\<lambda>c. owner_id c = uid \<and> today env \<le> birthday c
                                 \<and> birthday c \<le> today env + days) (contacts w)))
       \<and> (\<forall>uid days. days < - 999999999 \<or> 999999999 < days
              \<or> today env + days \<le> 0 \<or> MAXORDINAL < today env + days \<longrightarrow>
            crud_get_upcoming_birthdays env w uid days = (Inl OverflowError, w))"
proof -
  obtain w1 where g: "get_current_user env w tok = (Inr u, w1)"
    using assms(1) by (cases "get_current_user env w tok") auto
  have fr: "contacts w1 = contacts w"
    using get_current_user_frame [OF g] by simp
  have week: "- 999999999 \<le> (7::int)" "(7::int) \<le> 999999999" "0 < today env + 7"
    using assms(2) by simp_all
  have "fst (get_upcoming_birthdays env w tok) =
           Inr (filter (\<lambda>c. owner_id c = u_id u \<and> today env \<le> birthday c
                              \<and> birthday c \<le> today env + 7) (contacts w))"
    using g fr
    by (simp add: get_upcoming_birthdays_def
        crud_get_upcoming_birthdays_in_range [OF week assms(3)])
  then show ?thesis
    using crud_get_upcoming_birthdays_in_range [of _ env w]
      crud_get_upcoming_birthdays_overflow [of _ env w]
    by simp
qed

theorem upcoming_birthdays_range_witness:
  "fst (get_current_user env0 w0 tok_alice) = Inr alice
   \<and> 0 < today env0 \<and> today env0 + 7 \<le> MAXORDINAL
   \<and> fst (get_upcoming_birthdays env0 w0 tok_alice) = Inr [ann]"
proof -
  have h: "fst (get_current_user env0 w0 tok_alice) = Inr alice"
    by code_simp
  have d1: "0 < today env0"
    by code_simp
  have d2: "today env0 + 7 \<le> MAXORDINAL"
    by code_simp
  have c: "fst (get_upcoming_birthdays env0 w0 tok_alice) =
             Inr (filter (\<lambda>c. owner_id c = u_id alice \<and> today env0 \<le> birthday c
                                \<and> birthday c \<le> today env0 + 7) (contacts w0))"
    using upcoming_birthdays_range [OF h d1 d2] by (rule conjunct1)
  have e: "filter (\<lambda>c. owner_id c = u_id alice \<and> today env0 \<le> birthday c
                                \<and> birthday c \<le> today env0 + 7) (contacts w0) = [ann]"
    by code_simp
  show ?thesis using h d1 d2 c e by simp
qed

section \<open>Contacts belong to one user\<close>

text \<open>
  Claim C2. In a table whose primary keys are distinct, \<^verbatim>\<open>crud.get_contact\<close>,
  \<^verbatim>\<open>crud.update_contact\<close> and \<^verbatim>\<open>crud.delete_contact\<close> return only a contact with
  the requested id whose \<^verbatim>\<open>owner_id\<close> is the given user, \<^verbatim>\<open>crud.get_user_contacts\<close>
  returns only contacts of that user, and update and delete leave the contacts of every
  other owner exactly as they were.
\<close>

theorem contacts_per_user:
  assumes pk: "distinct (map c_id (contacts w))"
  shows "(\<forall>c. fst (get_contact w cid uid) = Some c
            \<longrightarrow> owner_id c = uid \<and> c_id c = cid \<and> c \<in> set (contacts w))
       \<and> (\<forall>rows. fst (get_user_contacts w uid skip limit) = Inr rows
            \<longrightarrow> (\<forall>c \<in> set rows. owner_id c = uid \<and> c \<in> set (contacts w)))
       \<and> (\<forall>c. fst (crud_update_contact w cid upd uid) = Inr (Some c)
            \<longrightarrow> owner_id c = uid \<and> c_id c = cid)
       \<and> filter (\<lambda>c. owner_id c \<noteq> uid) (contacts (snd (crud_update_contact w cid upd uid)))
           = filter (\<lambda>c. owner_id c \<noteq> uid) (contacts w)
       \<and> (\<forall>c. fst (crud_delete_contact w cid uid) = Some c
            \<longrightarrow> owner_id c = uid \<and> c_id c = cid \<and> c \<in> set (contacts w))
       \<and> filter (\<lambda>c. owner_id c \<noteq> uid) (contacts (snd (crud_delete_contact w cid uid)))
           = filter (\<lambda>c. owner_id c \<noteq> uid) (contacts w)"
proof -
  have get: "owner_id c = uid \<and> c_id c = cid \<and> c \<in> set (contacts w)"
    if "fst (get_contact w cid uid) = Some c" for c
    using that by (auto simp: get_contact_def query_first_def find_Some_iff)
  have foreign: "c_id r \<noteq> c_id c"
    if "fst (get_contact w cid uid) = Some c" and "r \<in> set (contacts w)"
      and "owner_id r \<noteq> uid" for c r
    using get [OF that(1)] that(2,3) distinct_key_eq [OF pk, of r c] by auto
  have list: "\<forall>c \<in> set rows. owner_id c = uid \<and> c \<in> set (contacts w)"
    if "fst (get_user_contacts w uid skip limit) = Inr rows" for rows
  proof -
    have "set rows \<subseteq> set (filter (\<lambda>c. owner_id c = uid) (contacts w))"
      using that set_take_subset set_drop_subset
      by (fastforce simp: get_user_contacts_def query_all_def offset_limit_def
          split: if_splits)
    then show ?thesis by auto
  qed
  have owner_keep: "owner_id (setattrs upd r) = owner_id r \<and> c_id (setattrs upd r) = c_id r" for r
    by (simp add: setattrs_def Let_def split: option.split)
  have upd_res: "owner_id c = uid \<and> c_id c = cid"
    if "fst (crud_update_contact w cid upd uid) = Inr (Some c)" for c
  proof (cases "fst (get_contact w cid uid)")
    case None
    then show ?thesis
      using that by (cases "get_contact w cid uid") (simp add: crud_update_contact_def)
  next
    case (Some d)
    then have "c = setattrs upd d"
      using that
      by (cases "get_contact w cid uid")
        (auto simp: crud_update_contact_def Let_def split: if_splits)
    then show ?thesis using get [OF Some] owner_keep by simp
  qed
  have upd_frame: "filter (\<lambda>c. owner_id c \<noteq> uid)
        (contacts (snd (crud_update_contact w cid upd uid)))
       = filter (\<lambda>c. owner_id c \<noteq> uid) (contacts w)"
  proof (cases "fst (get_contact w cid uid)")
    case None
    then show ?thesis
      by (cases "get_contact w cid uid")
        (auto simp: crud_update_contact_def get_contact_def query_first_def log_fields)
  next
    case (Some d)
    have w1: "snd (get_contact w cid uid) = log Query w"
      by (simp add: get_contact_def query_first_def)
    have "filter (\<lambda>c. owner_id c \<noteq> uid)
            (map (\<lambda>r. if c_id r = c_id d then setattrs upd r else r) (contacts w))
          = filter (\<lambda>c. owner_id c \<noteq> uid) (contacts w)"
      using foreign [OF Some] owner_keep by (intro filter_map_unchanged) auto
    then show ?thesis
      using Some w1
      by (cases "get_contact w cid uid")
        (auto simp: crud_update_contact_def Let_def log_fields)
  qed
  have del_res: "owner_id c = uid \<and> c_id c = cid \<and> c \<in> set (contacts w)"
    if "fst (crud_delete_contact w cid uid) = Some c" for c
  proof -
    have "fst (get_contact w cid uid) = Some c"
      using that
      by (cases "get_contact w cid uid")
        (auto simp: crud_delete_contact_def Let_def split: option.splits)
    then show ?thesis by (rule get)
  qed
  have del_frame: "filter (\<lambda>c. owner_id c \<noteq> uid)
        (contacts (snd (crud_delete_contact w cid uid)))
       = filter (\<lambda>c. owner_id c \<noteq> uid) (contacts w)"
  proof (cases "fst (get_contact w cid uid)")
    case None
    then show ?thesis
      by (cases "get_contact w cid uid")
        (auto simp: crud_delete_contact_def get_contact_def query_first_def log_fields)
  next
    case (Some d)
    have w1: "snd (get_contact w cid uid) = log Query w"
      by (simp add: get_contact_def query_first_def)
    have "filter (\<lambda>c. owner_id c \<noteq> uid) (filter (\<lambda>r. c_id r \<noteq> c_id d) (contacts w))
          = filter (\<lambda>c. owner_id c \<noteq> uid) (contacts w)"
      using foreign [OF Some] by (auto intro: filter_cong)
    then show ?thesis
      using Some w1
      by (cases "get_contact w cid uid")
        (auto simp: crud_delete_contact_def Let_def log_fields)
  qed
  show ?thesis
    apply (simp only: upd_frame del_frame simp_thms)
    apply (intro conjI allI impI ballI)
    using get list upd_res del_res apply blast+
    done
qed

theorem contacts_per_user_witness:
  "distinct (map c_id (contacts w0))
   \<and> fst (get_contact w0 1 1) = Some ann \<and> owner_id ann = 1
   \<and> filter (\<lambda>c. owner_id c \<noteq> 1) (contacts (snd (crud_update_contact w0 1 new_ann 1))) = [cat]
   \<and> filter (\<lambda>c. owner_id c \<noteq> 1) (contacts (snd (crud_delete_contact w0 1 1))) = [cat]"
proof -
  have pk: "distinct (map c_id (contacts w0))"
    by code_simp
  have g: "fst (get_contact w0 1 1) = Some ann"
    by code_simp
  have e: "filter (\<lambda>c. owner_id c \<noteq> 1) (contacts w0) = [cat]"
    by code_simp
  note t = contacts_per_user [OF pk, where cid = 1 and uid = 1 and upd = new_ann]
  have o: "owner_id ann = 1"
    using t g by blast
  have u: "filter (\<lambda>c. owner_id c \<noteq> 1) (contacts (snd (crud_update_contact w0 1 new_ann 1)))
           = filter (\<lambda>c. owner_id c \<noteq> 1) (contacts w0)"
    using t by blast
  have d: "filter (\<lambda>c. owner_id c \<noteq> 1) (contacts (snd (crud_delete_contact w0 1 1)))
           = filter (\<lambda>c. owner_id c \<noteq> 1) (contacts w0)"
    using t by blast
  show ?thesis using pk g o u d e by simp
qed

section \<open>A missing contact\<close>

lemma get_contact_missing:
  assumes "\<forall>c \<in> set (contacts w). \<not> (c_id c = cid \<and> owner_id c = uid)"
  shows "get_contact w cid uid = (None, log Query w)"
  using assms by (simp add: get_contact_def query_first_def find_None_iff)

text \<open>
  Claim C9. When the user owns no contact with the given id, \<^verbatim>\<open>crud.update_contact\<close>
  and \<^verbatim>\<open>crud.delete_contact\<close> return \<^verbatim>\<open>None\<close> and leave both tables as they were;
  of the three single-contact endpoints only the read endpoint raises HTTP 404, the
  update and delete endpoints return that \<^verbatim>\<open>None\<close>.
\<close>

theorem missing_contact_returns_none:
  assumes missing: "\<forall>c \<in> set (contacts w). \<not> (c_id c = cid \<and> owner_id c = uid)"
  shows "fst (crud_update_contact w cid upd uid) = Inr None
       \<and> users (snd (crud_update_contact w cid upd uid)) = users w
       \<and> contacts (snd (crud_update_contact w cid upd uid)) = contacts w
       \<and> fst (crud_delete_contact w cid uid) = None
       \<and> users (snd (crud_delete_contact w cid uid)) = users w
       \<and> contacts (snd (crud_delete_contact w cid uid)) = contacts w
       \<and> (\<forall>u. fst (get_current_user env w tok) = Inr u \<and> u_id u = uid \<longrightarrow>
             fst (read_contact env w tok cid) = Inl (HTTPException 404 ''Contact not found'')
           \<and> fst (update_contact env w tok cid upd) = Inr None
           \<and> fst (delete_contact env w tok cid) = Inr None)"
proof -
  note g = get_contact_missing [OF missing]
  have crud: "crud_update_contact w cid upd uid = (Inr None, log Query w)"
    "crud_delete_contact w cid uid = (None, log Query w)"
    by (simp_all add: crud_update_contact_def crud_delete_contact_def g)
  have api: "fst (read_contact env w tok cid) = Inl (HTTPException 404 ''Contact not found'')
           \<and> fst (update_contact env w tok cid upd) = Inr None
           \<and> fst (delete_contact env w tok cid) = Inr None"
    if u: "fst (get_current_user env w tok) = Inr u" and id: "u_id u = uid" for u
  proof -
    obtain w1 where c: "get_current_user env w tok = (Inr u, w1)"
      using u by (cases "get_current_user env w tok") auto
    have "contacts w1 = contacts w"
      using get_current_user_frame [OF c] by simp
    then have "\<forall>c \<in> set (contacts w1). \<not> (c_id c = cid \<and> owner_id c = uid)"
      using missing by simp
    then have g1: "get_contact w1 cid uid = (None, log Query w1)"
      by (rule get_contact_missing)
    show ?thesis
      by (simp add: read_contact_def update_contact_def delete_contact_def c id g1
          crud_update_contact_def crud_delete_contact_def)
  qed
  show ?thesis
    using api by (simp add: crud log_fields)
qed

theorem missing_contact_returns_none_witness:
  "\<not> (\<exists>c \<in> set (contacts w0). c_id c = 3 \<and> owner_id c = 1)
   \<and> fst (crud_update_contact w0 3 new_ann 1) = Inr None
   \<and> contacts (snd (crud_update_contact w0 3 new_ann 1)) = contacts w0
   \<and> fst (crud_delete_contact w0 3 1) = None
   \<and> contacts (snd (crud_delete_contact w0 3 1)) = contacts w0
   \<and> fst (read_contact env0 w0 tok_alice 3) = Inl (HTTPException 404 ''Contact not found'')"
proof -
  have m: "\<forall>c \<in> set (contacts w0). \<not> (c_id c = 3 \<and> owner_id c = 1)"
    by code_simp
  have a: "fst (get_current_user env0 w0 tok_alice) = Inr alice \<and> u_id alice = 1"
    by code_simp
  note t = missing_contact_returns_none [OF m, where upd = new_ann and env = env0
      and tok = tok_alice]
  have "fst (read_contact env0 w0 tok_alice 3) = Inl (HTTPException 404 ''Contact not found'')"
    using t a by blast
  moreover have "\<not> (\<exists>c \<in> set (contacts w0). c_id c = 3 \<and> owner_id c = 1)"
    using m by blast
  ultimately show ?thesis using t by simp
qed

section \<open>Email verification\<close>

lemma verify_email_none:
  assumes "find (\<lambda>u. verification_code u = Some code) (users w) = None"
  shows "verify_email w code = (Inl (HTTPException 404 ''User not found''), log Query w)"
  using assms by (simp add: verify_email_def query_first_def)

lemma verify_email_some:
  assumes "find (\<lambda>u. verification_code u = Some code) (users w) = Some u"
  shows "verify_email w code =
    (Inr [(''message'', ''Email successfully verified'')],
     log Commit ((log Query w)\<lparr>users :=
        map (\<lambda>r. if u_id r = u_id u
                 then r\<lparr>is_verified := True, verification_code := None\<rparr> else r)
          (users w)\<rparr>))"
  using assms by (simp add: verify_email_def query_first_def Let_def log_fields)

text \<open>
  Claim C3. \<^verbatim>\<open>GET /verify/{verification_code}\<close>: when no stored user has the code,
  the endpoint raises HTTP 404 and both tables stay as they were; when some user has
  it, the endpoint returns the success message, sets \<^verbatim>\<open>is_verified\<close> to true and
  \<^verbatim>\<open>verification_code\<close> to null in the row of a user who has the code, and changes no
  other user and no contact.
\<close>

theorem verify_email_effect:
  "((\<forall>u \<in> set (users w). verification_code u \<noteq> Some code) \<longrightarrow>
        fst (verify_email w code) = Inl (HTTPException 404 ''User not found'')
      \<and> users (snd (verify_email w code)) = users w
      \<and> contacts (snd (verify_email w code)) = contacts w)
   \<and> ((\<exists>u \<in> set (users w). verification_code u = Some code) \<longrightarrow>
        (\<exists>u \<in> set (users w). verification_code u = Some code
          \<and> fst (verify_email w code) = Inr [(''message'', ''Email successfully verified'')]
          \<and> users (snd (verify_email w code)) =
              map (\<lambda>r. if u_id r = u_id u
                       then r\<lparr>is_verified := True, verification_code := None\<rparr> else r)
                (users w)
          \<and> contacts (snd (verify_email w code)) = contacts w))"
proof (intro conjI impI)
  assume none: "\<forall>u \<in> set (users w). verification_code u \<noteq> Some code"
  then have "find (\<lambda>u. verification_code u = Some code) (users w) = None"
    by (simp add: find_None_iff)
  then show "fst (verify_email w code) = Inl (HTTPException 404 ''User not found'')"
    and "users (snd (verify_email w code)) = users w"
    and "contacts (snd (verify_email w code)) = contacts w"
    by (simp_all add: verify_email_none log_fields)
next
  assume "\<exists>u \<in> set (users w). verification_code u = Some code"
  then obtain u where f: "find (\<lambda>u. verification_code u = Some code) (users w) = Some u"
    by (cases "find (\<lambda>u. verification_code u = Some code) (users w)")
      (auto simp: find_None_iff)
  then have "u \<in> set (users w)" and "verification_code u = Some code"
    by (auto simp: find_Some_iff)
  moreover have "fst (verify_email w code) = Inr [(''message'', ''Email successfully verified'')]"
    and "users (snd (verify_email w code)) =
              map (\<lambda>r. if u_id r = u_id u
                       then r\<lparr>is_verified := True, verification_code := None\<rparr> else r)
                (users w)"
    and "contacts (snd (verify_email w code)) = contacts w"
    by (simp_all add: verify_email_some [OF f] log_fields)
  ultimately show "\<exists>u \<in> set (users w). verification_code u = Some code
          \<and> fst (verify_email w code) = Inr [(''message'', ''Email successfully verified'')]
          \<and> users (snd (verify_email w code)) =
              map (\<lambda>r. if u_id r = u_id u
                       then r\<lparr>is_verified := True, verification_code := None\<rparr> else r)
                (users w)
          \<and> contacts (snd (verify_email w code)) = contacts w"
    by blast
qed

theorem verify_email_effect_witness:
  "(\<exists>u \<in> set (users w0). verification_code u = Some ''DDDDDD'')
   \<and> fst (verify_email w0 ''DDDDDD'') = Inr [(''message'', ''Email successfully verified'')]
   \<and> \<not> (\<exists>u \<in> set (users w0). verification_code u = Some ''ZZZZZZ'')
   \<and> fst (verify_email w0 ''ZZZZZZ'') = Inl (HTTPException 404 ''User not found'')
   \<and> users (snd (verify_email w0 ''ZZZZZZ'')) = users w0"
proof -
  have e: "\<exists>u \<in> set (users w0). verification_code u = Some ''DDDDDD''"
    by code_simp
  have n: "\<forall>u \<in> set (users w0). verification_code u \<noteq> Some ''ZZZZZZ''"
    by code_simp
  have a: "fst (verify_email w0 ''DDDDDD'') = Inr [(''message'', ''Email successfully verified'')]"
    using verify_email_effect [of w0 "''DDDDDD''"] e by blast
  have b: "fst (verify_email w0 ''ZZZZZZ'') = Inl (HTTPException 404 ''User not found'')
      \<and> users (snd (verify_email w0 ''ZZZZZZ'')) = users w0"
    using verify_email_effect [of w0 "''ZZZZZZ''"] n by blast
  have n': "\<not> (\<exists>u \<in> set (users w0). verification_code u = Some ''ZZZZZZ'')"
    using n by blast
  show ?thesis using e n' a b by blast
qed




section \<open>Access tokens\<close>


lemma int_claim_type_error:
  "int_claim env v = Inl TypeError
     \<longleftrightarrow> v = JNull \<or> (\<exists>xs. v = JArray xs) \<or> (\<exists>kvs. v = JObject kvs)"
  by (cases v) (auto simp: int_claim_def split: option.splits)












lemma create_access_token_sub:
  "create_access_token env [(''sub'', JStr email)] delta =
     JWS ALGORITHM SECRET_KEY
       [(''sub'', JStr email),
        (''exp'', JInt (utcnow env + (case delta of None \<Rightarrow> 900
                                      | Some d \<Rightarrow> if d \<noteq> 0 then d else 900)))]"
  by (simp add: create_access_token_def jwt_encode_def Let_def split: option.split)




section \<open>Login\<close>

lemma authenticate_user_cases:
  "authenticate_user env w e p =
     (case fst (get_user_by_email w e) of
        None \<Rightarrow> (Inr None, log Query w)
      | Some u \<Rightarrow>
          (case verify_password env p (hashed_password u) of
             Inl err \<Rightarrow> (Inl err, log Query w)
           | Inr ok \<Rightarrow> if ok then (Inr (Some u), log Query w) else (Inr None, log Query w)))"
  by (simp add: authenticate_user_def get_user_by_email_def query_first_def
      split: option.split sum.split)

lemma get_user_by_email_found:
  assumes "fst (get_user_by_email w e) = Some u"
  shows "u_email u = e \<and> u \<in> set (users w)"
  using assms by (auto simp: get_user_by_email_def query_first_def find_Some_iff)

lemma verify_password_errors:
  "verify_password env p h = Inl err \<Longrightarrow> err = ValueError"
  by (auto simp: verify_password_def split: if_splits option.splits)

text \<open>
  The statement of claim C5 fails for a stored user and a password with a NUL
  character: the password hasher refuses the password, and the endpoint raises that
  \<^verbatim>\<open>ValueError\<close>, neither HTTP 401 nor a token.
\<close>

theorem login_nul_password:
  "fst (get_user_by_email w0 ''a@x.org'') = Some alice
   \<and> fst (login_for_access_token env0 w0 ''a@x.org'' nul_password) = Inl ValueError"
  by code_simp

text \<open>
  Claim C5, amended. \<^verbatim>\<open>POST /token\<close> raises HTTP 401 exactly when no user has the
  email or the password hasher finds that the password does not match the stored hash
  of the user with that email. When a user has the email and the hasher refuses the
  password (a NUL character, or more characters than its size limit) or cannot read
  the stored hash, the endpoint raises the hasher's \<^verbatim>\<open>ValueError\<close>; it raises nothing
  else. When the password matches, it returns a bearer token, the JWS signed with the
  configured secret and algorithm whose \<^verbatim>\<open>sub\<close> is the user's email and whose
  \<^verbatim>\<open>exp\<close> is the time of issue plus thirty minutes. It changes neither table.
\<close>

theorem login_outcomes:
  "(fst (login_for_access_token env w e p)
       = Inl (HTTPException 401 ''Incorrect username or password'')
     \<longleftrightarrow> (fst (get_user_by_email w e) = None
          \<or> (\<exists>u. fst (get_user_by_email w e) = Some u
                 \<and> verify_password env p (hashed_password u) = Inr False)))
   \<and> (\<forall>u. fst (get_user_by_email w e) = Some u
            \<and> verify_password env p (hashed_password u) = Inr True
          \<longrightarrow> u_email u = e
            \<and> fst (login_for_access_token env w e p) =
                Inr \<lparr>access_token =
                       jwt_encode [(''sub'', JStr e),
                                   (''exp'', JInt (utcnow env + ACCESS_TOKEN_EXPIRE_MINUTES * 60))]
                         SECRET_KEY ALGORITHM,
                     token_type = ''bearer''\<rparr>)
   \<and> (\<forall>u. fst (get_user_by_email w e) = Some u
            \<and> (password_rejected p \<or> pwd_verify env p (hashed_password u) = None)
          \<longrightarrow> fst (login_for_access_token env w e p) = Inl ValueError)
   \<and> (\<forall>err. fst (login_for_access_token env w e p) = Inl err
          \<longrightarrow> err = HTTPException 401 ''Incorrect username or password'' \<or> err = ValueError)
   \<and> users (snd (login_for_access_token env w e p)) = users w
   \<and> contacts (snd (login_for_access_token env w e p)) = contacts w"
proof (cases "fst (get_user_by_email w e)")
  case None
  then show ?thesis
    by (simp add: login_for_access_token_def authenticate_user_cases log_fields)
next
  case (Some u)
  note e = get_user_by_email_found [OF Some]
  show ?thesis
  proof (cases "verify_password env p (hashed_password u)")
    case (Inl err)
    then have v: "err = ValueError"
      by (rule verify_password_errors)
    show ?thesis
      using Some Inl v
      by (simp add: login_for_access_token_def authenticate_user_cases log_fields)
  next
    case (Inr ok)
    then have acc: "\<not> password_rejected p" "pwd_verify env p (hashed_password u) = Some ok"
      by (auto simp: verify_password_def split: if_splits option.splits)
    show ?thesis
    proof (cases ok)
      case True
      then show ?thesis
        using Some Inr e acc
        by (simp add: login_for_access_token_def authenticate_user_cases log_fields Let_def
            create_access_token_sub jwt_encode_def ACCESS_TOKEN_EXPIRE_MINUTES_def)
    next
      case False
      then show ?thesis
        using Some Inr acc
        by (simp add: login_for_access_token_def authenticate_user_cases log_fields)
    qed
  qed
qed

theorem login_outcomes_witness:
  "fst (get_user_by_email w0 ''a@x.org'') = Some alice
   \<and> verify_password env0 ''pw1'' (hashed_password alice) = Inr True
   \<and> fst (login_for_access_token env0 w0 ''a@x.org'' ''pw1'') =
       Inr \<lparr>access_token = JWS ''HS256'' ''Bjgji6930''
                             [(''sub'', JStr ''a@x.org''), (''exp'', JInt 2800)],
            token_type = ''bearer''\<rparr>
   \<and> verify_password env0 ''bad'' (hashed_password alice) = Inr False
   \<and> fst (login_for_access_token env0 w0 ''a@x.org'' ''bad'') =
       Inl (HTTPException 401 ''Incorrect username or password'')
   \<and> password_rejected nul_password
   \<and> fst (login_for_access_token env0 w0 ''a@x.org'' nul_password) = Inl ValueError"
proof -
  have g: "fst (get_user_by_email w0 ''a@x.org'') = Some alice"
    by code_simp
  have v: "verify_password env0 ''pw1'' (hashed_password alice) = Inr True"
    by code_simp
  have n: "verify_password env0 ''bad'' (hashed_password alice) = Inr False"
    by code_simp
  have r: "password_rejected nul_password"
    by code_simp
  have t: "jwt_encode [(''sub'', JStr ''a@x.org''),
                (''exp'', JInt (utcnow env0 + ACCESS_TOKEN_EXPIRE_MINUTES * 60))]
              SECRET_KEY ALGORITHM
           = JWS ''HS256'' ''Bjgji6930'' [(''sub'', JStr ''a@x.org''), (''exp'', JInt 2800)]"
    by (simp add: jwt_encode_def env0_def ACCESS_TOKEN_EXPIRE_MINUTES_def SECRET_KEY_def
        ALGORITHM_def)
  have a: "fst (login_for_access_token env0 w0 ''a@x.org'' ''pw1'') =
       Inr \<lparr>access_token = jwt_encode [(''sub'', JStr ''a@x.org''),
                (''exp'', JInt (utcnow env0 + ACCESS_TOKEN_EXPIRE_MINUTES * 60))]
              SECRET_KEY ALGORITHM,
            token_type = ''bearer''\<rparr>"
    using login_outcomes [of env0 w0 "''a@x.org''" "''pw1''"] g v by blast
  have b: "fst (login_for_access_token env0 w0 ''a@x.org'' ''bad'') =
       Inl (HTTPException 401 ''Incorrect username or password'')"
    using login_outcomes [of env0 w0 "''a@x.org''" "''bad''"] g n by blast
  have c: "fst (login_for_access_token env0 w0 ''a@x.org'' nul_password) = Inl ValueError"
    using login_outcomes [of env0 w0 "''a@x.org''" nul_password] g r by blast
  show ?thesis using g v n r a b c unfolding t by simp
qed

section \<open>Registration\<close>












section \<open>Avatar upload\<close>

lemma update_avatar_stores_nothing:
  "users (snd (update_avatar env w tok i f)) = users w
   \<and> contacts (snd (update_avatar env w tok i f)) = contacts w"
proof (cases "get_current_user env w tok")
  case (Pair r w1)
  note fr = get_current_user_frame [OF Pair]
  have "users (snd (update_user_avatar env w1 i f)) = users w1
      \<and> contacts (snd (update_user_avatar env w1 i f)) = contacts w1"
    by (cases "find (\<lambda>u. u_id u = i) (users w1)"; cases "upload_image env f")
      (simp_all add: update_user_avatar_def query_first_def log_fields)
  then show ?thesis
    using Pair fr by (cases r) (auto simp: update_avatar_def)
qed

text \<open>
  Claim C7. The claim says that a permitted upload sets the \<^verbatim>\<open>avatar_url\<close> field of
  the user. The endpoint returns the user object with the uploaded URL as an attribute,
  but the \<^verbatim>\<open>users\<close> table has no such column: after the request the stored user is
  what it was, and the URL is kept nowhere.
\<close>

theorem avatar_url_not_stored:
  "fst (update_avatar env0 w0 tok_alice 1 ''a.png'') = Inr (Some (alice, ''https://img/a.png''))
   \<and> users (snd (update_avatar env0 w0 tok_alice 1 ''a.png'')) = users w0
   \<and> contacts (snd (update_avatar env0 w0 tok_alice 1 ''a.png'')) = contacts w0"
  by code_simp

section \<open>ORM calls per request\<close>

lemma get_current_user_calls:
  "(\<forall>e w1. get_current_user env w tok = (Inl e, w1)
       \<longrightarrow> calls w1 = calls w \<or> calls w1 = calls w @ [Query])
   \<and> (\<forall>u w1. get_current_user env w tok = (Inr u, w1) \<longrightarrow> calls w1 = calls w @ [Query])"
  by (auto simp: get_current_user_def query_first_def log_fields
      split: sum.splits option.splits)

lemma get_contact_calls: "calls (snd (get_contact w a b)) = calls w @ [Query]"
  by (simp add: get_contact_def query_first_def log_fields)

lemma get_user_contacts_calls: "calls (snd (get_user_contacts w a b c)) = calls w @ [Query]"
  by (simp add: get_user_contacts_def query_all_def log_fields)

lemma crud_get_upcoming_birthdays_calls:
  "calls (snd (crud_get_upcoming_birthdays env w a b)) = calls w
   \<or> calls (snd (crud_get_upcoming_birthdays env w a b)) = calls w @ [Query]"
  by (simp add: crud_get_upcoming_birthdays_def timedelta_days_def date_add_def
      query_all_def log_fields)

lemma crud_create_contact_calls:
  "calls (snd (crud_create_contact w c u)) = calls w @ [Add, Commit]
   \<or> calls (snd (crud_create_contact w c u)) = calls w @ [Add, Commit, Refresh]"
  by (simp add: crud_create_contact_def log_fields Let_def)

lemma crud_update_contact_calls:
  "calls (snd (crud_update_contact w i c u)) = calls w @ [Query]
   \<or> calls (snd (crud_update_contact w i c u)) = calls w @ [Query, Commit]
   \<or> calls (snd (crud_update_contact w i c u)) = calls w @ [Query, Commit, Refresh]"
  by (cases "find (\<lambda>c. c_id c = i \<and> owner_id c = u) (contacts w)")
    (simp_all add: crud_update_contact_def get_contact_def query_first_def log_fields Let_def)

lemma crud_delete_contact_calls:
  "calls (snd (crud_delete_contact w i u)) = calls w @ [Query]
   \<or> calls (snd (crud_delete_contact w i u)) = calls w @ [Query, Delete, Commit]"
  by (cases "find (\<lambda>c. c_id c = i \<and> owner_id c = u) (contacts w)")
    (simp_all add: crud_delete_contact_def get_contact_def query_first_def log_fields Let_def)

lemma crud_create_user_calls:
  "calls (snd (crud_create_user env w r)) = calls w
   \<or> calls (snd (crud_create_user env w r)) = calls w @ [Add, Commit]
   \<or> calls (snd (crud_create_user env w r)) = calls w @ [Add, Commit, Refresh]"
  by (simp add: crud_create_user_def get_password_hash_def send_verification_email_def
      log_fields Let_def)

lemma update_user_avatar_calls:
  "calls (snd (update_user_avatar env w i f)) = calls w @ [Query]
   \<or> calls (snd (update_user_avatar env w i f)) = calls w @ [Query, Commit, Refresh]"
  by (cases "find (\<lambda>u. u_id u = i) (users w)"; cases "upload_image env f")
    (simp_all add: update_user_avatar_def query_first_def log_fields)

lemma verify_email_calls:
  "calls (snd (verify_email w c)) = calls w @ [Query]
   \<or> calls (snd (verify_email w c)) = calls w @ [Query, Commit]"
  by (cases "find (\<lambda>u. verification_code u = Some c) (users w)")
    (simp_all add: verify_email_def query_first_def log_fields Let_def)

lemma create_user_calls:
  "calls (snd (create_user env w r)) = calls w @ [Query]
   \<or> calls (snd (create_user env w r)) = calls w @ [Query, Add, Commit]
   \<or> calls (snd (create_user env w r)) = calls w @ [Query, Add, Commit, Refresh]"
proof (cases "find (\<lambda>u. u_email u = uc_email r) (users w)")
  case None
  then have "create_user env w r = crud_create_user env (log Query w) r"
    by (simp add: create_user_def get_user_by_email_def query_first_def)
  then show ?thesis
    using crud_create_user_calls [of env "log Query w" r] by (simp add: log_fields)
next
  case (Some u)
  then show ?thesis
    by (simp add: create_user_def get_user_by_email_def query_first_def log_fields)
qed

lemma login_calls: "calls (snd (login_for_access_token env w e p)) = calls w @ [Query]"
proof (cases "find (\<lambda>u. u_email u = e) (users w)")
  case None
  then show ?thesis
    by (simp add: login_for_access_token_def authenticate_user_def query_first_def log_fields)
next
  case (Some u)
  then show ?thesis
    by (cases "verify_password env p (hashed_password u)")
      (simp_all add: login_for_access_token_def authenticate_user_def query_first_def
        log_fields Let_def)
qed

lemma snd_case_prod_wrap: "snd (case p of (r, w2) \<Rightarrow> (f r, w2)) = snd p"
  by (cases p) simp

lemma endpoint_unauthenticated:
  assumes "get_current_user env w tok = (Inl e, w1)"
  shows "snd (update_avatar env w tok i f) = w1"
    and "snd (create_contact env w tok c) = w1"
    and "snd (read_contacts env w tok a b) = w1"
    and "snd (read_contact env w tok i) = w1"
    and "snd (update_contact env w tok i c) = w1"
    and "snd (delete_contact env w tok i) = w1"
    and "snd (get_upcoming_birthdays env w tok) = w1"
  using assms
  by (simp_all add: update_avatar_def create_contact_def read_contacts_def read_contact_def
      update_contact_def delete_contact_def get_upcoming_birthdays_def)

lemma endpoint_authenticated:
  assumes "get_current_user env w tok = (Inr u, w1)"
  shows "calls (snd (update_avatar env w tok i f)) = calls w1
           \<or> snd (update_avatar env w tok i f) = snd (update_user_avatar env w1 i f)"
    and "snd (create_contact env w tok c) = snd (crud_create_contact w1 c (u_id u))"
    and "snd (read_contacts env w tok a b) = snd (get_user_contacts w1 (u_id u) a b)"
    and "snd (read_contact env w tok i) = snd (get_contact w1 i (u_id u))"
    and "snd (update_contact env w tok i c) = snd (crud_update_contact w1 i c (u_id u))"
    and "snd (delete_contact env w tok i) = snd (crud_delete_contact w1 i (u_id u))"
    and "snd (get_upcoming_birthdays env w tok) =
           snd (crud_get_upcoming_birthdays env w1 (u_id u) 7)"
proof -
  show "calls (snd (update_avatar env w tok i f)) = calls w1
           \<or> snd (update_avatar env w tok i f) = snd (update_user_avatar env w1 i f)"
    using assms by (simp add: update_avatar_def)
  show "snd (create_contact env w tok c) = snd (crud_create_contact w1 c (u_id u))"
    using assms by (simp add: create_contact_def)
  show "snd (read_contacts env w tok a b) = snd (get_user_contacts w1 (u_id u) a b)"
    using assms by (simp add: read_contacts_def)
  show "snd (read_contact env w tok i) = snd (get_contact w1 i (u_id u))"
    using assms
    by (cases "get_contact w1 i (u_id u)")
      (simp add: read_contact_def split: option.split)
  show "snd (update_contact env w tok i c) = snd (crud_update_contact w1 i c (u_id u))"
    using assms by (simp add: update_contact_def)
  show "snd (delete_contact env w tok i) = snd (crud_delete_contact w1 i (u_id u))"
    using assms by (simp add: delete_contact_def snd_case_prod_wrap)
  show "snd (get_upcoming_birthdays env w tok) =
           snd (crud_get_upcoming_birthdays env w1 (u_id u) 7)"
    using assms by (simp add: get_upcoming_birthdays_def)
qed


lemma handle_unauthenticated:
  assumes "get_current_user env w tok = (Inl e, w1)"
  shows "\<exists>tr \<in> set few_calls. calls w1 = calls w @ tr"
proof -
  have "calls w1 = calls w @ [] \<or> calls w1 = calls w @ [Query]"
    using assms get_current_user_calls [of env w tok] by auto
  then show ?thesis
    by (auto simp: few_calls_def)
qed

lemma handle_calls: "\<exists>tr \<in> set few_calls. calls (handle env w req) = calls w @ tr"
proof (cases req)
  case (PostAvatar tok i f)
  show ?thesis
  proof (cases "get_current_user env w tok")
    case (Pair r w1)
    show ?thesis
    proof (cases r)
      case (Inl e)
      then show ?thesis
        using handle_unauthenticated [of env w tok e w1] Pair PostAvatar
        by (simp add: endpoint_unauthenticated)
    next
      case (Inr u)
      then have g: "get_current_user env w tok = (Inr u, w1)" and q: "calls w1 = calls w @ [Query]"
        using Pair get_current_user_calls [of env w tok] by auto
      have "calls (handle env w req) = calls w @ [Query]
          \<or> calls (handle env w req) = calls w @ [Query, Query]
          \<or> calls (handle env w req) = calls w @ [Query, Query, Commit, Refresh]"
        using endpoint_authenticated(1) [OF g, of i f] update_user_avatar_calls [of env w1 i f]
          q PostAvatar by auto
      then show ?thesis by (auto simp: few_calls_def)
    qed
  qed
next
  case (GetVerify c)
  then show ?thesis
    using verify_email_calls [of w c] by (auto simp: few_calls_def)
next
  case (PostUsers r)
  then show ?thesis
    using create_user_calls [of env w r] by (auto simp: few_calls_def)
next
  case (PostToken e p)
  then show ?thesis
    using login_calls [of env w e p] by (auto simp: few_calls_def)
next
  case (PostContacts tok c)
  show ?thesis
  proof (cases "get_current_user env w tok")
    case (Pair r w1)
    show ?thesis
    proof (cases r)
      case (Inl e)
      then show ?thesis
        using handle_unauthenticated [of env w tok e w1] Pair PostContacts
        by (simp add: endpoint_unauthenticated)
    next
      case (Inr u)
      then have g: "get_current_user env w tok = (Inr u, w1)" and q: "calls w1 = calls w @ [Query]"
        using Pair get_current_user_calls [of env w tok] by auto
      have "calls (handle env w req) = calls w @ [Query, Add, Commit]
          \<or> calls (handle env w req) = calls w @ [Query, Add, Commit, Refresh]"
        using endpoint_authenticated(2) [OF g, of c] crud_create_contact_calls [of w1 c "u_id u"]
          q PostContacts by auto
      then show ?thesis by (auto simp: few_calls_def)
    qed
  qed
next
  case (GetContacts tok a b)
  show ?thesis
  proof (cases "get_current_user env w tok")
    case (Pair r w1)
    show ?thesis
    proof (cases r)
      case (Inl e)
      then show ?thesis
        using handle_unauthenticated [of env w tok e w1] Pair GetContacts
        by (simp add: endpoint_unauthenticated)
    next
      case (Inr u)
      then have g: "get_current_user env w tok = (Inr u, w1)" and q: "calls w1 = calls w @ [Query]"
        using Pair get_current_user_calls [of env w tok] by auto
      have "calls (handle env w req) = calls w @ [Query, Query]"
        using endpoint_authenticated(3) [OF g, of a b]
          get_user_contacts_calls [of w1 "u_id u" a b] q GetContacts by auto
      then show ?thesis by (auto simp: few_calls_def)
    qed
  qed
next
  case (GetContact tok i)
  show ?thesis
  proof (cases "get_current_user env w tok")
    case (Pair r w1)
    show ?thesis
    proof (cases r)
      case (Inl e)
      then show ?thesis
        using handle_unauthenticated [of env w tok e w1] Pair GetContact
        by (simp add: endpoint_unauthenticated)
    next
      case (Inr u)
      then have g: "get_current_user env w tok = (Inr u, w1)" and q: "calls w1 = calls w @ [Query]"
        using Pair get_current_user_calls [of env w tok] by auto
      have "calls (handle env w req) = calls w @ [Query, Query]"
        using endpoint_authenticated(4) [OF g, of i]
          get_contact_calls [of w1 i "u_id u"] q GetContact by auto
      then show ?thesis by (auto simp: few_calls_def)
    qed
  qed
next
  case (PutContact tok i c)
  show ?thesis
  proof (cases "get_current_user env w tok")
    case (Pair r w1)
    show ?thesis
    proof (cases r)
      case (Inl e)
      then show ?thesis
        using handle_unauthenticated [of env w tok e w1] Pair PutContact
        by (simp add: endpoint_unauthenticated)
    next
      case (Inr u)
      then have g: "get_current_user env w tok = (Inr u, w1)" and q: "calls w1 = calls w @ [Query]"
        using Pair get_current_user_calls [of env w tok] by auto
      have "calls (handle env w req) = calls w @ [Query, Query]
          \<or> calls (handle env w req) = calls w @ [Query, Query, Commit]
          \<or> calls (handle env w req) = calls w @ [Query, Query, Commit, Refresh]"
        using endpoint_authenticated(5) [OF g, of i c]
          crud_update_contact_calls [of w1 i c "u_id u"] q PutContact by auto
      then show ?thesis by (auto simp: few_calls_def)
    qed
  qed
next
  case (DeleteContact tok i)
  show ?thesis
  proof (cases "get_current_user env w tok")
    case (Pair r w1)
    show ?thesis
    proof (cases r)
      case (Inl e)
      then show ?thesis
        using handle_unauthenticated [of env w tok e w1] Pair DeleteContact
        by (simp add: endpoint_unauthenticated)
    next
      case (Inr u)
      then have g: "get_current_user env w tok = (Inr u, w1)" and q: "calls w1 = calls w @ [Query]"
        using Pair get_current_user_calls [of env w tok] by auto
      have "calls (handle env w req) = calls w @ [Query, Query]
          \<or> calls (handle env w req) = calls w @ [Query, Query, Delete, Commit]"
        using endpoint_authenticated(6) [OF g, of i]
          crud_delete_contact_calls [of w1 i "u_id u"] q DeleteContact by auto
      then show ?thesis by (auto simp: few_calls_def)
    qed
  qed
next
  case (GetUpcomingBirthdays tok)
  show ?thesis
  proof (cases "get_current_user env w tok")
    case (Pair r w1)
    show ?thesis
    proof (cases r)
      case (Inl e)
      then show ?thesis
        using handle_unauthenticated [of env w tok e w1] Pair GetUpcomingBirthdays
        by (simp add: endpoint_unauthenticated)
    next
      case (Inr u)
      then have g: "get_current_user env w tok = (Inr u, w1)" and q: "calls w1 = calls w @ [Query]"
        using Pair get_current_user_calls [of env w tok] by auto
      have "calls (handle env w req) = calls w @ [Query]
          \<or> calls (handle env w req) = calls w @ [Query, Query]"
        using endpoint_authenticated(7) [OF g]
          crud_get_upcoming_birthdays_calls [of env w1 "u_id u" 7] q GetUpcomingBirthdays
        by auto
      then show ?thesis by (auto simp: few_calls_def)
    qed
  qed
qed

text \<open>
  The statement of claim C8 fails: a registration issues a query, an add, a commit and
  a refresh.
\<close>

theorem create_user_issues_four_calls:
  "issued env0 w0 (PostUsers carol_request) = [Query, Add, Commit, Refresh]"
  by code_simp

text \<open>
  Claim C8, amended. Every endpoint is a thin pass-through: the ORM calls of one
  request are one of the nine short sequences of \<open>few_calls\<close>, that is at most two
  queries (the lookup of the authenticated user and one more), at most one add or
  delete, at most one commit and at most one refresh, and nothing else.
\<close>

theorem handlers_issue_few_calls:
  "calls (handle env w req) = calls w @ issued env w req
   \<and> issued env w req \<in> set few_calls
   \<and> count_list (issued env w req) Query \<le> 2
   \<and> count_list (issued env w req) Add + count_list (issued env w req) Delete \<le> 1
   \<and> count_list (issued env w req) Commit \<le> 1
   \<and> count_list (issued env w req) Refresh \<le> 1"
proof -
  obtain tr where tr: "tr \<in> set few_calls" and c: "calls (handle env w req) = calls w @ tr"
    using handle_calls [of env w req] by blast
  have i: "issued env w req = tr"
    by (simp add: issued_def c)
  have "count_list tr Query \<le> 2 \<and> count_list tr Add + count_list tr Delete \<le> 1
      \<and> count_list tr Commit \<le> 1 \<and> count_list tr Refresh \<le> 1"
    using tr by (auto simp: few_calls_def)
  then show ?thesis
    using tr c i by simp
qed

theorem handlers_issue_few_calls_witness:
  "issued env0 w0 (GetVerify ''DDDDDD'') = [Query, Commit]
   \<and> issued env0 w0 (GetVerify ''DDDDDD'') \<in> set few_calls
   \<and> count_list (issued env0 w0 (GetVerify ''DDDDDD'')) Query \<le> 2"
proof -
  have e: "issued env0 w0 (GetVerify ''DDDDDD'') = [Query, Commit]"
    by code_simp
  show ?thesis
    using e handlers_issue_few_calls [of env0 w0 "GetVerify ''DDDDDD''"] by simp
qed

end
